theory Spec2Isabelle
  imports Complex_Main
begin

section \<open>Data model\<close>

text \<open>
  The snippet extraction and result formatting of \<^verbatim>\<open>processor/snippet.go\<close> and
  \<^verbatim>\<open>processor/worker_summarize.go\<close>.

  Byte sequences (\<^verbatim>\<open>[]byte\<close>, \<^verbatim>\<open>string\<close>) are lists of 8-bit characters, so
  \<open>length\<close> counts bytes as Go's \<^verbatim>\<open>len\<close> does. Go's \<^verbatim>\<open>int\<close> is modelled by
  \<open>int\<close>: every value is a byte offset or a length, far from the 64-bit range.
  A run-time panic is a value of \<open>error\<close>.
\<close>

datatype error = IndexOutOfRange | SliceBounds

text \<open>
  \<^verbatim>\<open>float64\<close>: a finite value is kept as the exact rational, next to the two infinities
  and NaN of IEEE 754. Rounding is not modelled: the only floating-point operations of
  the code are the conversion of an \<^verbatim>\<open>int\<close>, the sum of two such values, one division and
  the comparison \<^verbatim>\<open>>\<close>. Division by zero does not panic for \<^verbatim>\<open>float64\<close>.
\<close>

datatype float64 = Fin rat | PInf | NInf | NaN

fun fadd :: "float64 \<Rightarrow> float64 \<Rightarrow> float64" where
  "fadd (Fin a) (Fin b) = Fin (a + b)"
| "fadd NaN _ = NaN"
| "fadd _ NaN = NaN"
| "fadd PInf NInf = NaN"
| "fadd NInf PInf = NaN"
| "fadd PInf _ = PInf"
| "fadd _ PInf = PInf"
| "fadd NInf _ = NInf"
| "fadd _ NInf = NInf"

fun fdiv :: "float64 \<Rightarrow> float64 \<Rightarrow> float64" where
  "fdiv (Fin a) (Fin b) =
     (if b = 0 then (if a > 0 then PInf else if a < 0 then NInf else NaN) else Fin (a / b))"
| "fdiv (Fin a) PInf = Fin 0"
| "fdiv (Fin a) NInf = Fin 0"
| "fdiv PInf (Fin b) = (if b \<ge> 0 then PInf else NInf)"
| "fdiv NInf (Fin b) = (if b \<ge> 0 then NInf else PInf)"
| "fdiv PInf PInf = NaN"
| "fdiv PInf NInf = NaN"
| "fdiv NInf PInf = NaN"
| "fdiv NInf NInf = NaN"
| "fdiv NaN _ = NaN"
| "fdiv _ NaN = NaN"

fun fgt :: "float64 \<Rightarrow> float64 \<Rightarrow> bool" where
  "fgt (Fin a) (Fin b) = (a > b)"
| "fgt PInf (Fin b) = True"
| "fgt PInf NInf = True"
| "fgt (Fin a) NInf = True"
| "fgt _ _ = False"

text \<open>
  \<^verbatim>\<open>map[string][][]int\<close>: the entries of the map in the order in which one \<^verbatim>\<open>range\<close>
  over it visits them. Go leaves that order unspecified, so a property of the program
  has to hold for every order of the entries. A location is the two-element slice
  \<^verbatim>\<open>{start, end}\<close> the matcher records; the code reads \<^verbatim>\<open>s[0]\<close> and \<^verbatim>\<open>s[1]\<close> only.
\<close>

type_synonym matchLocations = "(string \<times> (int \<times> int) list) list"

text \<open>
  \<^verbatim>\<open>fileJob\<close>: the struct is declared outside the files at hand; these are the fields
  the code reads and writes.
\<close>

record fileJob =
  Filename :: string
  Location :: string
  Content :: string
  Bytes :: int
  Score :: float64
  MatchLocations :: matchLocations

record relevantV3 =
  Word :: string
  Start :: int
  End :: int

record bestMatch =
  StartPos :: int
  EndPos :: int
  Score :: float64
  Relevant :: "relevantV3 list"

record Snippet =
  Content :: string
  StartPos :: int
  EndPos :: int

record jsonResult =
  Filename :: string
  Location :: string
  Content :: string
  Score :: float64
  MatchLocations :: "(int \<times> int) list"

section \<open>Go primitives\<close>

text \<open>Integer division truncates toward zero.\<close>

definition goDiv :: "int \<Rightarrow> int \<Rightarrow> int" where
  "goDiv a b = sgn a * sgn b * (\<bar>a\<bar> div \<bar>b\<bar>)"

text \<open>A missing key of a \<^verbatim>\<open>map[string]int\<close> reads as 0.\<close>

definition lookupInt :: "(string \<rightharpoonup> int) \<Rightarrow> string \<Rightarrow> int" where
  "lookupInt m k = (case m k of None \<Rightarrow> 0 | Some c \<Rightarrow> c)"

text \<open>
  \<^verbatim>\<open>unicode.IsSpace(rune(b))\<close> for a byte \<open>b\<close>: in the Latin-1 range the white space
  characters are \<^verbatim>\<open>\t \n \v \f \r\<close>, the space, U+0085 and U+00A0.
\<close>

definition IsSpace :: "char \<Rightarrow> bool" where
  "IsSpace c = (of_char c \<in> {9, 10, 11, 12, 13, 32, 133, 160 :: nat})"

text \<open>
  \<^verbatim>\<open>c[lo:hi]\<close> on a byte slice whose capacity is its length; Go panics unless
  \<open>0 \<le> lo \<le> hi \<le> cap\<close>.
\<close>

definition sliceBytes :: "string \<Rightarrow> int \<Rightarrow> int \<Rightarrow> error + string" where
  "sliceBytes c lo hi =
     (if 0 \<le> lo \<and> lo \<le> hi \<and> hi \<le> int (length c)
      then Inr (take (nat (hi - lo)) (drop (nat lo) c))
      else Inl SliceBounds)"

text \<open>
  \<^verbatim>\<open>sort.Slice\<close>: the insertion sort that Go's \<^verbatim>\<open>sort\<close> package runs on a short slice
  (at most 12 elements; at most 6 before Go 1.19). Each element moves left while \<open>lt\<close>
  holds between it and its left neighbour. \<open>insertLess\<close> works on the already sorted
  prefix in reverse, the left neighbour first. On longer slices Go's sort gives the same
  result whenever \<open>lt\<close> orders all elements strictly; the order of elements that
  \<open>lt\<close> does not separate is then unspecified, and this function stands for Go's sort
  on short slices only. The general facts proved below use no more of it than holds of
  any sort: the result has the elements of the argument, and it is the one sorted list
  when the keys are pairwise distinct.
\<close>

fun insertLess :: "('a \<Rightarrow> 'a \<Rightarrow> bool) \<Rightarrow> 'a \<Rightarrow> 'a list \<Rightarrow> 'a list" where
  "insertLess lt x [] = [x]"
| "insertLess lt x (y # ys) =
     (if lt x y then y # insertLess lt x ys else x # y # ys)"

definition sortSlice :: "('a \<Rightarrow> 'a \<Rightarrow> bool) \<Rightarrow> 'a list \<Rightarrow> 'a list" where
  "sortSlice lt xs = rev (foldl (\<lambda>acc x. insertLess lt x acc) [] xs)"

text \<open>A loop body that may panic, run over a list of inputs; the first panic ends it.\<close>

fun collect :: "('a \<Rightarrow> error + 'b) \<Rightarrow> 'a list \<Rightarrow> error + 'b list" where
  "collect f [] = Inr []"
| "collect f (x # xs) =
     (case f x of
        Inl e \<Rightarrow> Inl e
      | Inr y \<Rightarrow> (case collect f xs of Inl e \<Rightarrow> Inl e | Inr ys \<Rightarrow> Inr (y # ys)))"

section \<open>findNearbySpace\<close>

text \<open>
  One of the two loops of \<^verbatim>\<open>findNearbySpace\<close>, over the indices it visits in order:
  \<^verbatim>\<open>res.Content[i]\<close> panics outside \<open>0 \<le> i < len\<close>, the first white space ends the
  search.
\<close>

fun scanSpace :: "string \<Rightarrow> int list \<Rightarrow> error + int option" where
  "scanSpace c [] = Inr None"
| "scanSpace c (i # is) =
     (if i < 0 \<or> int (length c) \<le> i then Inl IndexOutOfRange
      else if IsSpace (c ! nat i) then Inr (Some i)
      else scanSpace c is)"

definition findNearbySpace :: "fileJob \<Rightarrow> int \<Rightarrow> int \<Rightarrow> error + (int \<times> bool)" where
  "findNearbySpace res pos distance =
     (let leftDistance = (if pos - distance < 0 then 0 else pos - distance) in
      case scanSpace (fileJob.Content res) (rev [leftDistance..pos]) of
        Inl e \<Rightarrow> Inl e
      | Inr (Some i) \<Rightarrow> Inr (i, True)
      | Inr None \<Rightarrow>
          (let n = int (length (fileJob.Content res));
               rightDistance = (if pos + distance \<ge> n then n else pos + distance) in
           case scanSpace (fileJob.Content res) [pos..rightDistance - 1] of
             Inl e \<Rightarrow> Inl e
           | Inr (Some i) \<Rightarrow> Inr (i, True)
           | Inr None \<Rightarrow> Inr (pos, False)))"

section \<open>extractRelevantV3\<close>

text \<open>Lines 310 to 320: every location of every term, in the order the map yields them.\<close>

definition flattenLocations :: "matchLocations \<Rightarrow> relevantV3 list" where
  "flattenLocations ml =
     concat (map (\<lambda>(k, v). map (\<lambda>(s, e). \<lparr>Word = k, Start = s, End = e\<rparr>) v) ml)"

text \<open>
  The slide to the left visits \<open>rv3[i-1], rv3[i-2], \<dots>\<close> and the slide to the right
  \<open>rv3[i+1], rv3[i+2], \<dots>\<close>; each stops at the first candidate further than
  \<open>wrapLength\<close> away.
\<close>

fun slideLeft :: "relevantV3 \<Rightarrow> int \<Rightarrow> relevantV3 list \<Rightarrow> bestMatch \<Rightarrow> bestMatch" where
  "slideLeft a wrapLength [] m = m"
| "slideLeft a wrapLength (c # cs) m =
     (if End a - Start c > wrapLength then m
      else slideLeft a wrapLength cs
             (m\<lparr>bestMatch.StartPos := Start c, Relevant := Relevant m @ [c]\<rparr>))"

fun slideRight :: "relevantV3 \<Rightarrow> int \<Rightarrow> relevantV3 list \<Rightarrow> bestMatch \<Rightarrow> bestMatch" where
  "slideRight a wrapLength [] m = m"
| "slideRight a wrapLength (c # cs) m =
     (if End c - Start a > wrapLength then m
      else slideRight a wrapLength cs
             (m\<lparr>bestMatch.EndPos := End c, Relevant := Relevant m @ [c]\<rparr>))"

text \<open>Lines 381 to 395: a match shorter than \<open>relLength\<close> is widened and clamped.\<close>

definition padMatch :: "int \<Rightarrow> int \<Rightarrow> bestMatch \<Rightarrow> bestMatch" where
  "padMatch relLength n m =
     (let l = bestMatch.EndPos m - bestMatch.StartPos m in
      if l < relLength then
        (let add = goDiv (relLength - l) 2;
             sp = bestMatch.StartPos m - add;
             ep = bestMatch.EndPos m + add in
         m\<lparr>bestMatch.StartPos := (if sp < 0 then 0 else sp),
           bestMatch.EndPos := (if ep > n then n else ep)\<rparr>)
      else m)"

text \<open>Lines 410 to 417: the score of a match, weighted by the frequency of the anchor's word.\<close>

definition scoreMatch :: "(string \<rightharpoonup> int) \<Rightarrow> relevantV3 \<Rightarrow> bestMatch \<Rightarrow> bestMatch" where
  "scoreMatch documentFrequencies a m =
     (let s1 = fadd (bestMatch.Score m) (Fin (of_nat (length (Relevant m))));
          s2 = fadd s1 (Fin (of_int (bestMatch.EndPos m - bestMatch.EndPos m)));
          s3 = fdiv s2 (Fin (of_int (lookupInt documentFrequencies (Word a))))
      in m\<lparr>bestMatch.Score := s3\<rparr>)"

text \<open>
  The body of the loop over the anchors, for \<open>i < length rv3\<close>. Lines 328 to 395
  build the bracket around the anchor \<open>rv3[i]\<close>.
\<close>

definition bracketMatch :: "fileJob \<Rightarrow> int \<Rightarrow> int \<Rightarrow> relevantV3 list \<Rightarrow> nat \<Rightarrow> bestMatch" where
  "bracketMatch res relLength wrapLength rv3 i =
     (let a = rv3 ! i;
          m0 = \<lparr>bestMatch.StartPos = Start a, bestMatch.EndPos = End a,
                bestMatch.Score = Fin 0, Relevant = [a]\<rparr>;
          m1 = slideLeft a wrapLength (rev (take i rv3)) m0;
          m2 = slideRight a wrapLength (drop (Suc i) rv3) m1
      in padMatch relLength (int (length (fileJob.Content res))) m2)"

text \<open>
  Lines 400 to 418: the two calls of \<^verbatim>\<open>findNearbySpace\<close>, whose results the source
  drops (a panic is not dropped), and the score.
\<close>

definition anchorMatch ::
  "fileJob \<Rightarrow> (string \<rightharpoonup> int) \<Rightarrow> int \<Rightarrow> int \<Rightarrow> relevantV3 list \<Rightarrow> nat \<Rightarrow> error + bestMatch" where
  "anchorMatch res documentFrequencies relLength wrapLength rv3 i =
     (let m = bracketMatch res relLength wrapLength rv3 i in
      case findNearbySpace res (bestMatch.StartPos m) 10 of
        Inl e \<Rightarrow> Inl e
      | Inr _ \<Rightarrow>
          (case findNearbySpace res (bestMatch.EndPos m) 10 of
             Inl e \<Rightarrow> Inl e
           | Inr _ \<Rightarrow> Inr (scoreMatch documentFrequencies (rv3 ! i) m)))"

definition extractRelevantV3 ::
  "fileJob \<Rightarrow> (string \<rightharpoonup> int) \<Rightarrow> int \<Rightarrow> string \<Rightarrow> error + Snippet" where
  "extractRelevantV3 res documentFrequencies relLength indicator =
     (let wrapLength = goDiv relLength 2;
          rv3 = sortSlice (\<lambda>x y. Start x < Start y) (flattenLocations (fileJob.MatchLocations res))
      in case collect (anchorMatch res documentFrequencies relLength wrapLength rv3)
                [0..<length rv3] of
           Inl e \<Rightarrow> Inl e
         | Inr bestMatches \<Rightarrow>
             (case sortSlice (\<lambda>x y. fgt (bestMatch.Score x) (bestMatch.Score y)) bestMatches of
                [] \<Rightarrow> Inl IndexOutOfRange
              | b # _ \<Rightarrow>
                  (case sliceBytes (fileJob.Content res) (bestMatch.StartPos b) (bestMatch.EndPos b) of
                     Inl e \<Rightarrow> Inl e
                   | Inr bs \<Rightarrow>
                       Inr \<lparr>Snippet.Content = indicator @ bs @ indicator,
                            Snippet.StartPos = bestMatch.StartPos b,
                            Snippet.EndPos = bestMatch.EndPos b\<rparr>)))"

section \<open>subString\<close>

text \<open>
  \<^verbatim>\<open>for j := range s\<close> decodes the string as UTF-8 and yields the byte offset of each
  character. \<open>runeLen\<close> is the number of bytes the decoder of Go's runtime consumes at
  the front of a string: the length of a well-formed encoding, and 1 for a byte that
  begins none. \<open>decodeWidth\<close> checks the continuation bytes of an encoding of \<open>sz\<close>
  bytes whose second byte has to lie between \<open>lo\<close> and \<open>hi\<close>.
\<close>

definition continuation :: "nat \<Rightarrow> nat \<Rightarrow> char \<Rightarrow> bool" where
  "continuation lo hi b = (lo \<le> (of_char b :: nat) \<and> (of_char b :: nat) \<le> hi)"

definition decodeWidth :: "nat \<Rightarrow> nat \<Rightarrow> nat \<Rightarrow> string \<Rightarrow> nat" where
  "decodeWidth sz lo hi s =
     (if length s < sz then 1
      else if \<not> continuation lo hi (s ! 1) then 1
      else if sz \<le> 2 then 2
      else if \<not> continuation 0x80 0xBF (s ! 2) then 1
      else if sz \<le> 3 then 3
      else if \<not> continuation 0x80 0xBF (s ! 3) then 1
      else 4)"

definition runeLen :: "string \<Rightarrow> nat" where
  "runeLen s =
     (case s of
        [] \<Rightarrow> 0
      | b # _ \<Rightarrow>
          (let x = (of_char b :: nat) in
           if x < 0xC2 then 1
           else if x < 0xE0 then decodeWidth 2 0x80 0xBF s
           else if x = 0xE0 then decodeWidth 3 0xA0 0xBF s
           else if x = 0xED then decodeWidth 3 0x80 0x9F s
           else if x < 0xF0 then decodeWidth 3 0x80 0xBF s
           else if x = 0xF0 then decodeWidth 4 0x90 0xBF s
           else if x < 0xF4 then decodeWidth 4 0x80 0xBF s
           else if x = 0xF4 then decodeWidth 4 0x80 0x8F s
           else 1))"

text \<open>
  The offsets \<open>j\<close> the loop visits, for the rest of a string that begins at offset \<open>j\<close>
  with \<open>pending\<close> bytes of the current character still to be skipped.
\<close>

fun rangeOffsets :: "string \<Rightarrow> int \<Rightarrow> nat \<Rightarrow> int list" where
  "rangeOffsets [] j pending = []"
| "rangeOffsets (b # bs) j pending =
     (if pending = 0 then j # rangeOffsets bs (j + 1) (runeLen (b # bs) - 1)
      else rangeOffsets bs (j + 1) (pending - 1))"

text \<open>
  The loop of \<^verbatim>\<open>subString\<close> over the offsets still to come; \<open>i\<close> counts characters. A
  slice expression of a string panics like that of a byte slice.
\<close>

fun subStringLoop :: "string \<Rightarrow> int list \<Rightarrow> int \<Rightarrow> int \<Rightarrow> int \<Rightarrow> int \<Rightarrow> error + string" where
  "subStringLoop s [] i start_str_idx start end = sliceBytes s start_str_idx (int (length s))"
| "subStringLoop s (j # js) i start_str_idx start end =
     (let idx = (if i = start then j else start_str_idx) in
      if i = end then sliceBytes s idx j
      else subStringLoop s js (i + 1) idx start end)"

definition subString :: "string \<Rightarrow> int \<Rightarrow> int \<Rightarrow> error + string" where
  "subString s start end = subStringLoop s (rangeOffsets s 0 0) 0 0 start end"

text \<open>An offset at which a character of the string begins, or its end.\<close>

definition runeBoundary :: "string \<Rightarrow> int \<Rightarrow> bool" where
  "runeBoundary s p = (p = int (length s) \<or> p \<in> set (rangeOffsets s 0 0))"

section \<open>Highlight offsets and result formatting\<close>

text \<open>
  The loop of \<^verbatim>\<open>formatJson\<close> (lines 73 to 82) and of \<^verbatim>\<open>formatDefault\<close> (lines 128
  to 137) over the match locations of a document. The loop variable \<^verbatim>\<open>s\<close> is a slice
  header that shares its two integers with the entry of \<^verbatim>\<open>res.MatchLocations\<close>, so the
  assignments to \<^verbatim>\<open>s[0]\<close> and \<^verbatim>\<open>s[1]\<close> write into the document's map. The functions
  thread both the list \<^verbatim>\<open>l\<close> and the map: they take \<open>l\<close> and return it with the locations
  as the loop leaves them. Distinct locations do not share storage.
\<close>

fun remapRanges ::
  "int \<Rightarrow> int \<Rightarrow> (int \<times> int) list \<Rightarrow> (int \<times> int) list \<Rightarrow> (int \<times> int) list \<times> (int \<times> int) list" where
  "remapRanges sp ep [] l = (l, [])"
| "remapRanges sp ep ((s0, s1) # rest) l =
     (if s0 \<ge> sp \<and> s1 \<le> ep then
        (let s = (s0 - sp, s1 - sp);
             (l', rest') = remapRanges sp ep rest (l @ [s])
         in (l', s # rest'))
      else
        (let (l', rest') = remapRanges sp ep rest l
         in (l', (s0, s1) # rest')))"

fun remapLocations ::
  "int \<Rightarrow> int \<Rightarrow> matchLocations \<Rightarrow> (int \<times> int) list \<Rightarrow> (int \<times> int) list \<times> matchLocations" where
  "remapLocations sp ep [] l = (l, [])"
| "remapLocations sp ep ((k, v) # rest) l =
     (let (l1, v') = remapRanges sp ep v l;
          (l2, rest') = remapLocations sp ep rest l1
      in (l2, (k, v') # rest'))"

text \<open>The indicator \<^verbatim>\<open>"\<dots>"\<close> of both formatters: U+2026 in UTF-8.\<close>

definition ellipsis :: string where
  "ellipsis = [CHR 0xE2, CHR 0x80, CHR 0xA6]"

text \<open>
  Modelled from the spec: \<^verbatim>\<open>calculateDocumentTermFrequency\<close> is called by both formatters
  and declared outside the files at hand. "For each document, for each term key in its
  match map, add the number of recorded ranges for that term to the term's running
  total. Empty batch \<rightarrow> empty map."
\<close>

fun addTermCounts :: "matchLocations \<Rightarrow> (string \<rightharpoonup> int) \<Rightarrow> (string \<rightharpoonup> int)" where
  "addTermCounts [] m = m"
| "addTermCounts ((k, v) # rest) m =
     addTermCounts rest (m(k \<mapsto> lookupInt m k + int (length v)))"

fun calculateDocumentTermFrequencyFrom ::
  "(string \<rightharpoonup> int) \<Rightarrow> fileJob list \<Rightarrow> (string \<rightharpoonup> int)" where
  "calculateDocumentTermFrequencyFrom m [] = m"
| "calculateDocumentTermFrequencyFrom m (res # results) =
     calculateDocumentTermFrequencyFrom (addTermCounts (fileJob.MatchLocations res) m) results"

definition calculateDocumentTermFrequency :: "fileJob list \<Rightarrow> (string \<rightharpoonup> int)" where
  "calculateDocumentTermFrequency results = calculateDocumentTermFrequencyFrom Map.empty results"

text \<open>
  The number of ranges a document records for a term, as the claim about the document
  frequency words it.
\<close>

definition termRangeCount :: "fileJob \<Rightarrow> string \<Rightarrow> int" where
  "termRangeCount res t =
     (case map_of (fileJob.MatchLocations res) t of None \<Rightarrow> 0 | Some v \<Rightarrow> int (length v))"

text \<open>
  The body of the loop of \<^verbatim>\<open>formatJson\<close> for one document: the record appended to
  \<^verbatim>\<open>jsonResults\<close>, and the document as the loop leaves it. The source indexes the result
  of \<^verbatim>\<open>extractRelevantV3\<close> with \<^verbatim>\<open>[0]\<close>; the function returns one snippet, which is
  the one taken. \<^verbatim>\<open>SnippetLength\<close> is a package variable, here a parameter.
\<close>

definition formatJsonDoc ::
  "(string \<rightharpoonup> int) \<Rightarrow> int \<Rightarrow> fileJob \<Rightarrow> error + (jsonResult \<times> fileJob)" where
  "formatJsonDoc documentFrequency SnippetLength res =
     (case extractRelevantV3 res documentFrequency SnippetLength ellipsis of
        Inl e \<Rightarrow> Inl e
      | Inr v3 \<Rightarrow>
          (let (l, ml) = remapLocations (Snippet.StartPos v3) (Snippet.EndPos v3)
                           (fileJob.MatchLocations res) []
           in Inr (\<lparr>jsonResult.Filename = fileJob.Filename res,
                     jsonResult.Location = fileJob.Location res,
                     jsonResult.Content = Snippet.Content v3,
                     jsonResult.Score = fileJob.Score res,
                     jsonResult.MatchLocations = l\<rparr>,
                   res\<lparr>fileJob.MatchLocations := ml\<rparr>)))"

definition formatJson :: "int \<Rightarrow> fileJob list \<Rightarrow> error + (jsonResult \<times> fileJob) list" where
  "formatJson SnippetLength results =
     collect (formatJsonDoc (calculateDocumentTermFrequency results) SnippetLength) results"

text \<open>
  \<^verbatim>\<open>formatDefault\<close>: the loop over the snippets of one document (lines 122 to 155), with
  the text printed for each snippet and the match locations threaded through.
  \<^verbatim>\<open>str.HighlightString\<close> belongs to another package and is a parameter.
\<close>

fun snippetLoop ::
  "(string \<Rightarrow> (int \<times> int) list \<Rightarrow> string \<Rightarrow> string \<Rightarrow> string) \<Rightarrow> string \<Rightarrow> string \<Rightarrow>
   Snippet list \<Rightarrow> matchLocations \<Rightarrow> string list \<times> matchLocations" where
  "snippetLoop HighlightString fmtBegin fmtEnd [] ml = ([], ml)"
| "snippetLoop HighlightString fmtBegin fmtEnd (sn # snippets) ml =
     (let (l, ml1) = remapLocations (Snippet.StartPos sn) (Snippet.EndPos sn) ml [];
          displayContent =
            (if \<not> (Snippet.StartPos sn = 0 \<and> Snippet.EndPos sn = 0)
             then HighlightString (Snippet.Content sn) l fmtBegin fmtEnd
             else Snippet.Content sn);
          (out, ml2) = snippetLoop HighlightString fmtBegin fmtEnd snippets ml1
      in (displayContent # out, ml2))"

text \<open>
  The body of the loop of \<^verbatim>\<open>formatDefault\<close> for one document. The source treats the
  result of \<^verbatim>\<open>extractRelevantV3\<close> as a slice of snippets; the function returns one
  snippet, so the slice has that one element.
\<close>

definition formatDefaultDoc ::
  "(string \<Rightarrow> (int \<times> int) list \<Rightarrow> string \<Rightarrow> string \<Rightarrow> string) \<Rightarrow> bool \<Rightarrow> int \<Rightarrow>
   (string \<rightharpoonup> int) \<Rightarrow> int \<Rightarrow> fileJob \<Rightarrow> error + (string list \<times> fileJob)" where
  "formatDefaultDoc HighlightString NoColor SnippetCount documentFrequency SnippetLength res =
     (let fmtBegin = (if NoColor then [] else CHR 0x1B # ''[1;31m'');
          fmtEnd = (if NoColor then [] else CHR 0x1B # ''[0m'')
      in case extractRelevantV3 res documentFrequency SnippetLength ellipsis of
           Inl e \<Rightarrow> Inl e
         | Inr v3 \<Rightarrow>
             (let snippets = [v3] in
              if int (length snippets) > SnippetCount \<and> SnippetCount < 0 then Inl SliceBounds
              else
                (let snippets' = (if int (length snippets) > SnippetCount
                                  then take (nat SnippetCount) snippets else snippets);
                     (out, ml) = snippetLoop HighlightString fmtBegin fmtEnd snippets'
                                   (fileJob.MatchLocations res)
                 in Inr (out, res\<lparr>fileJob.MatchLocations := ml\<rparr>))))"

definition formatDefault ::
  "(string \<Rightarrow> (int \<times> int) list \<Rightarrow> string \<Rightarrow> string \<Rightarrow> string) \<Rightarrow> bool \<Rightarrow> int \<Rightarrow> int \<Rightarrow>
   fileJob list \<Rightarrow> error + (string list \<times> fileJob) list" where
  "formatDefault HighlightString NoColor SnippetCount SnippetLength results =
     collect (formatDefaultDoc HighlightString NoColor SnippetCount
                (calculateDocumentTermFrequency results) SnippetLength) results"

section \<open>ResultSummarizer.Start\<close>

text \<open>
  The fields of \<^verbatim>\<open>ResultSummarizer\<close> that \<^verbatim>\<open>Start\<close> reads: \<open>input\<close> is the sequence of
  documents the channel delivers until it is closed, \<open>fileCount\<close> what
  \<^verbatim>\<open>FileReaderWorker.GetFileCount()\<close> returns.
\<close>

record ResultSummarizer =
  input :: "fileJob list"
  ResultLimit :: int
  fileCount :: int
  SnippetCount :: int
  NoColor :: bool
  Format :: string

datatype rendered = JsonOutput "(jsonResult \<times> fileJob) list" | DefaultOutput "(string list \<times> fileJob) list"

text \<open>
  Lines 38 to 49: the batch is collected, then cut to \<^verbatim>\<open>ResultLimit\<close>. The slice
  expression \<^verbatim>\<open>results[:f.ResultLimit]\<close> panics on a negative bound.
\<close>

definition limitResults :: "ResultSummarizer \<Rightarrow> error + fileJob list" where
  "limitResults f =
     (let results = input f in
      if ResultLimit f \<noteq> - 1 then
        (if int (length results) > ResultLimit f then
           (if ResultLimit f < 0 then Inl SliceBounds
            else Inr (take (nat (ResultLimit f)) results))
         else Inr results)
      else Inr results)"

text \<open>
  Line 51: \<^verbatim>\<open>rankResults\<close> is declared outside the files at hand and is a parameter; it
  scores and sorts the slice it is given in place.
\<close>

definition rankedResults ::
  "(int \<Rightarrow> fileJob list \<Rightarrow> fileJob list) \<Rightarrow> ResultSummarizer \<Rightarrow> error + fileJob list" where
  "rankedResults rankResults f =
     (case limitResults f of
        Inl e \<Rightarrow> Inl e
      | Inr results \<Rightarrow> Inr (rankResults (fileCount f) results))"

text \<open>Lines 53 to 58: the formatter chosen by \<^verbatim>\<open>f.Format\<close>.\<close>

definition formatResults ::
  "(string \<Rightarrow> (int \<times> int) list \<Rightarrow> string \<Rightarrow> string \<Rightarrow> string) \<Rightarrow> int \<Rightarrow>
   ResultSummarizer \<Rightarrow> fileJob list \<Rightarrow> error + rendered" where
  "formatResults HighlightString SnippetLength f results =
     (if Format f = ''json'' then
        (case formatJson SnippetLength results of
           Inl e \<Rightarrow> Inl e | Inr out \<Rightarrow> Inr (JsonOutput out))
      else
        (case formatDefault HighlightString (NoColor f) (SnippetCount f) SnippetLength results of
           Inl e \<Rightarrow> Inl e | Inr out \<Rightarrow> Inr (DefaultOutput out)))"

definition Start ::
  "(int \<Rightarrow> fileJob list \<Rightarrow> fileJob list) \<Rightarrow>
   (string \<Rightarrow> (int \<times> int) list \<Rightarrow> string \<Rightarrow> string \<Rightarrow> string) \<Rightarrow> int \<Rightarrow>
   ResultSummarizer \<Rightarrow> error + rendered" where
  "Start rankResults HighlightString SnippetLength f =
     (case rankedResults rankResults f of
        Inl e \<Rightarrow> Inl e
      | Inr results \<Rightarrow> formatResults HighlightString SnippetLength f results)"

section \<open>Concrete documents\<close>

text \<open>A document at path \<^verbatim>\<open>f.go\<close> with the given content and match locations.\<close>

definition jobWith :: "string \<Rightarrow> matchLocations \<Rightarrow> fileJob" where
  "jobWith c ml =
     \<lparr>fileJob.Filename = ''f.go'', fileJob.Location = ''f.go'', fileJob.Content = c,
      Bytes = int (length c), fileJob.Score = Fin 0, fileJob.MatchLocations = ml\<rparr>"

text \<open>A two-byte file in which the term \<^verbatim>\<open>a\<close> matches at offset 0.\<close>

definition shortJob :: fileJob where
  "shortJob = jobWith ''ab'' [(''a'', [(0, 1)])]"

text \<open>A file that matched by its name only: no location in its content.\<close>

definition noMatchJob :: fileJob where
  "noMatchJob = jobWith ''package main'' []"

text \<open>Five words of four letters; the term \<^verbatim>\<open>cc\<close> matches inside the third word.\<close>

definition spacedJob :: fileJob where
  "spacedJob = jobWith ''aaaa bbbb cccc dddd eeee'' [(''cc'', [(11, 13)])]"

text \<open>The same content with a second term, \<^verbatim>\<open>dd\<close>, matching inside the fourth word.\<close>

definition pairJob :: fileJob where
  "pairJob = jobWith ''aaaa bbbb cccc dddd eeee'' [(''cc'', [(11, 13)]), (''dd'', [(15, 17)])]"

definition ccMatch :: relevantV3 where
  "ccMatch = \<lparr>Word = ''cc'', Start = 11, End = 13\<rparr>"

definition ddMatch :: relevantV3 where
  "ddMatch = \<lparr>Word = ''dd'', Start = 15, End = 17\<rparr>"

text \<open>
  The terms \<^verbatim>\<open>a\<close> and \<^verbatim>\<open>ab\<close> both match at offset 0. The two documents are the
  same Go value: their maps hold the same entries, visited in the two possible orders.
\<close>

definition tieJobA :: fileJob where
  "tieJobA = jobWith ''ab cdefghij'' [(''a'', [(0, 1)]), (''ab'', [(0, 2)])]"

definition tieJobB :: fileJob where
  "tieJobB = jobWith ''ab cdefghij'' [(''ab'', [(0, 2)]), (''a'', [(0, 1)])]"

definition tieFrequencies :: "string \<rightharpoonup> int" where
  "tieFrequencies = [''a'' \<mapsto> 1, ''ab'' \<mapsto> 1]"

text \<open>
  The content is the letter e with an acute accent (the two bytes C3 A9 in UTF-8) followed by
  \<^verbatim>\<open>abcd\<close>; the term \<^verbatim>\<open>a\<close> matches at byte offset 2.
\<close>

definition accentJob :: fileJob where
  "accentJob = jobWith ([CHR 0xC3, CHR 0xA9] @ ''abcd'') [(''a'', [(2, 3)])]"

text \<open>Two documents in arrival order, the second with the higher score.\<close>

definition lowJob :: fileJob where
  "lowJob = (jobWith ''first'' [])\<lparr>fileJob.Location := ''low.go'', fileJob.Score := Fin 1\<rparr>"

definition highJob :: fileJob where
  "highJob = (jobWith ''second'' [])\<lparr>fileJob.Location := ''high.go'', fileJob.Score := Fin 2\<rparr>"

definition limitOne :: ResultSummarizer where
  "limitOne = \<lparr>input = [lowJob, highJob], ResultLimit = 1, fileCount = 2,
               SnippetCount = 1, NoColor = True, Format = ''json''\<rparr>"

text \<open>
  A ranking function to put in the place of \<^verbatim>\<open>rankResults\<close>: it keeps the scores and
  orders the batch by descending score.
\<close>

definition rankByScore :: "int \<Rightarrow> fileJob list \<Rightarrow> fileJob list" where
  "rankByScore n results = sortSlice (\<lambda>x y. fgt (fileJob.Score x) (fileJob.Score y)) results"

text \<open>
  The batch of \<^verbatim>\<open>TestCalculateDocumentFrequency\<close>: two documents, each with three ranges
  for the term \<^verbatim>\<open>test\<close>.
\<close>

definition testJob :: fileJob where
  "testJob = jobWith [] [(''test'', [(1, 2), (2, 3), (3, 4)])]"

section \<open>Bounds of findNearbySpace\<close>

lemma scanSpace_in_range:
  "\<forall>i \<in> set is. 0 \<le> i \<and> i < int (length c) \<Longrightarrow> \<exists>r. scanSpace c is = Inr r"
  by (induction "is") auto

lemma rev_upto_head: "l \<le> p \<Longrightarrow> rev [l..p] = p # rev [l..p - 1]"
  by (simp add: upto_rec2)

text \<open>
  The loop to the left starts by reading \<^verbatim>\<open>res.Content[pos]\<close>: a position at or past
  the end of the content panics, whatever the content holds.
\<close>

lemma findNearbySpace_at_end:
  assumes "0 \<le> distance" "int (length (fileJob.Content res)) \<le> pos"
  shows "findNearbySpace res pos distance = Inl IndexOutOfRange"
proof -
  let ?l = "if pos - distance < 0 then 0 else pos - distance"
  have "?l \<le> pos" using assms by auto
  then have "rev [?l..pos] = pos # rev [?l..pos - 1]" by (rule rev_upto_head)
  then show ?thesis using assms(2)
    by (simp add: findNearbySpace_def Let_def)
qed

text \<open>A position inside the content never panics.\<close>

lemma findNearbySpace_in_bounds:
  assumes "0 \<le> pos" "pos < int (length (fileJob.Content res))"
  shows "\<exists>r. findNearbySpace res pos distance = Inr r"
proof -
  let ?c = "fileJob.Content res"
  let ?l = "if pos - distance < 0 then 0 else pos - distance"
  let ?n = "int (length ?c)"
  let ?r = "if pos + distance \<ge> ?n then ?n else pos + distance"
  have "\<forall>i \<in> set (rev [?l..pos]). 0 \<le> i \<and> i < ?n" using assms by auto
  then obtain a where a: "scanSpace ?c (rev [?l..pos]) = Inr a"
    using scanSpace_in_range by blast
  have "\<forall>i \<in> set [pos..?r - 1]. 0 \<le> i \<and> i < ?n" using assms by auto
  then obtain b where b: "scanSpace ?c [pos..?r - 1] = Inr b"
    using scanSpace_in_range by blast
  show ?thesis using a b
    by (cases a; cases b) (auto simp: findNearbySpace_def Let_def)
qed

text \<open>
  C10. The claim: \<^verbatim>\<open>findNearbySpace\<close> never reads outside the content for a position
  \<^verbatim>\<open>extractRelevantV3\<close> calls it with, in particular not when a window's \<^verbatim>\<open>EndPos\<close> was
  clamped to the content length. The code at a two-byte file with one match and the
  target length 300: the bracket of the only anchor is padded and clamped to
  \<open>[0, 2]\<close>, the call at position 2 reads \<^verbatim>\<open>res.Content[2]\<close> and panics, and so does
  \<^verbatim>\<open>extractRelevantV3\<close>.
\<close>

theorem findNearbySpace_reads_past_end:
  "bestMatch.EndPos (bracketMatch shortJob 300 150 [\<lparr>Word = ''a'', Start = 0, End = 1\<rparr>] 0)
     = int (length (fileJob.Content shortJob))
   \<and> findNearbySpace shortJob 2 10 = Inl IndexOutOfRange
   \<and> extractRelevantV3 shortJob [''a'' \<mapsto> 1] 300 ellipsis = Inl IndexOutOfRange"
  by code_simp

section \<open>Truncation and ranking in Start\<close>

lemma limitResults_take:
  "ResultLimit f \<noteq> - 1 \<Longrightarrow> 0 \<le> ResultLimit f \<Longrightarrow>
   limitResults f = Inr (take (nat (ResultLimit f)) (input f))"
  by (simp add: limitResults_def Let_def)

lemma limitResults_unlimited: "ResultLimit f = - 1 \<Longrightarrow> limitResults f = Inr (input f)"
  by (simp add: limitResults_def)

lemma limitResults_negative: "ResultLimit f < - 1 \<Longrightarrow> limitResults f = Inl SliceBounds"
  by (simp add: limitResults_def Let_def)

text \<open>
  The claim C1 as stated fails: with the limit 1 and two documents, the batch that reaches
  the ranking function has lost the second document, which ranking the whole batch
  first would have put on top.
\<close>

theorem ranking_sees_truncated_batch:
  "ResultLimit limitOne \<noteq> - 1
   \<and> limitResults limitOne = Inr [lowJob]
   \<and> rankedResults rankByScore limitOne = Inr [lowJob]
   \<and> take 1 (rankByScore 2 [lowJob, highJob]) = [highJob]"
  by (intro conjI; code_simp)

text \<open>
  C1, amended. For every input batch and every result limit other than the sentinel -1,
  \<^verbatim>\<open>Start\<close> applies the limit before it ranks. With \<open>0 \<le> ResultLimit\<close> the collected
  batch is cut to its first \<open>ResultLimit\<close> documents in arrival order, the ranking
  function is invoked on that truncated batch, and the formatter gets what the ranking
  returns. With \<open>ResultLimit < -1\<close> the slice expression panics and nothing is ranked.
\<close>

theorem Start_ranks_truncated_batch:
  assumes "ResultLimit f \<noteq> - 1"
  shows "(0 \<le> ResultLimit f \<longrightarrow>
            rankedResults rankResults f =
              Inr (rankResults (fileCount f) (take (nat (ResultLimit f)) (input f)))
          \<and> Start rankResults HighlightString SnippetLength f =
              formatResults HighlightString SnippetLength f
                (rankResults (fileCount f) (take (nat (ResultLimit f)) (input f))))
       \<and> (ResultLimit f < 0 \<longrightarrow>
            rankedResults rankResults f = Inl SliceBounds
          \<and> Start rankResults HighlightString SnippetLength f = Inl SliceBounds)"
proof (intro conjI impI)
  assume "0 \<le> ResultLimit f"
  with assms have l: "limitResults f = Inr (take (nat (ResultLimit f)) (input f))"
    by (simp add: limitResults_take)
  show "rankedResults rankResults f =
          Inr (rankResults (fileCount f) (take (nat (ResultLimit f)) (input f)))"
    by (simp add: rankedResults_def l)
  then show "Start rankResults HighlightString SnippetLength f =
          formatResults HighlightString SnippetLength f
            (rankResults (fileCount f) (take (nat (ResultLimit f)) (input f)))"
    by (simp add: Start_def)
next
  assume "ResultLimit f < 0"
  with assms have "ResultLimit f < - 1" by simp
  then have l: "limitResults f = Inl SliceBounds"
    by (rule limitResults_negative)
  show "rankedResults rankResults f = Inl SliceBounds"
    by (simp add: rankedResults_def l)
  then show "Start rankResults HighlightString SnippetLength f = Inl SliceBounds"
    by (simp add: Start_def)
qed

theorem Start_ranks_truncated_batch_witness:
  "ResultLimit limitOne \<noteq> - 1 \<and> 0 \<le> ResultLimit limitOne
   \<and> rankedResults rankByScore limitOne = Inr (rankByScore 2 [lowJob])
   \<and> Start rankByScore (\<lambda>c l b e. c) 300 limitOne
       = formatResults (\<lambda>c l b e. c) 300 limitOne (rankByScore 2 [lowJob])"
proof -
  have h: "ResultLimit limitOne \<noteq> - 1" and p: "0 \<le> ResultLimit limitOne"
    by (simp_all add: limitOne_def)
  have t: "take (nat (ResultLimit limitOne)) (input limitOne) = [lowJob]" "fileCount limitOne = 2"
    by (simp_all add: limitOne_def)
  show ?thesis
    using h p Start_ranks_truncated_batch [OF h, of rankByScore "\<lambda>c l b e. c" 300]
    by (simp add: t)
qed

section \<open>Documents without match locations\<close>

lemma extractRelevantV3_no_locations:
  "flattenLocations (fileJob.MatchLocations res) = [] \<Longrightarrow>
   extractRelevantV3 res df relLength indicator = Inl IndexOutOfRange"
  by (simp add: extractRelevantV3_def sortSlice_def)

text \<open>
  C2. The claim: a document whose map of match locations is empty gets a defined
  sentinel snippet and \<^verbatim>\<open>extractRelevantV3\<close> does not fault on it. The code at such a
  document: no anchor, so \<^verbatim>\<open>bestMatches\<close> is empty and \<^verbatim>\<open>bestMatches[0]\<close> panics; both
  formatters call the function for every document and panic with it.
\<close>

theorem extractRelevantV3_empty_map_panics:
  "fileJob.MatchLocations noMatchJob = []
   \<and> extractRelevantV3 noMatchJob Map.empty 300 ellipsis = Inl IndexOutOfRange
   \<and> formatJson 300 [noMatchJob] = Inl IndexOutOfRange
   \<and> formatDefault (\<lambda>c l b e. c) True 1 300 [noMatchJob] = Inl IndexOutOfRange"
  by (intro conjI; code_simp)

section \<open>The score of a bracket\<close>

lemma slideLeft_Relevant:
  "Relevant (slideLeft a w cs m) =
     Relevant m @ takeWhile (\<lambda>c. End a - relevantV3.Start c \<le> w) cs"
  by (induction cs arbitrary: m) (auto simp: not_less)

lemma slideRight_Relevant:
  "Relevant (slideRight a w cs m) =
     Relevant m @ takeWhile (\<lambda>c. End c - relevantV3.Start a \<le> w) cs"
  by (induction cs arbitrary: m) (auto simp: not_less)

lemma slideLeft_Score: "bestMatch.Score (slideLeft a w cs m) = bestMatch.Score m"
  by (induction cs arbitrary: m) auto

lemma slideRight_Score: "bestMatch.Score (slideRight a w cs m) = bestMatch.Score m"
  by (induction cs arbitrary: m) auto

lemma padMatch_Relevant: "Relevant (padMatch relLength n m) = Relevant m"
  by (simp add: padMatch_def Let_def)

lemma padMatch_Score: "bestMatch.Score (padMatch relLength n m) = bestMatch.Score m"
  by (simp add: padMatch_def Let_def)

lemma bracketMatch_Relevant:
  "Relevant (bracketMatch res relLength w rv3 i) =
     rv3 ! i # takeWhile (\<lambda>c. End (rv3 ! i) - relevantV3.Start c \<le> w) (rev (take i rv3))
             @ takeWhile (\<lambda>c. End c - relevantV3.Start (rv3 ! i) \<le> w) (drop (Suc i) rv3)"
  by (simp add: bracketMatch_def Let_def padMatch_Relevant slideRight_Relevant slideLeft_Relevant)

lemma bracketMatch_Score: "bestMatch.Score (bracketMatch res relLength w rv3 i) = Fin 0"
  by (simp add: bracketMatch_def Let_def padMatch_Score slideRight_Score slideLeft_Score)

lemma scoreMatch_Score:
  "bestMatch.Score m = Fin 0 \<Longrightarrow>
   bestMatch.Score (scoreMatch df a m) =
     fdiv (Fin (of_nat (length (Relevant m)))) (Fin (of_int (lookupInt df (Word a))))"
  by (simp add: scoreMatch_def Let_def)

lemma scoreMatch_bounds:
  "bestMatch.StartPos (scoreMatch df a m) = bestMatch.StartPos m"
  "bestMatch.EndPos (scoreMatch df a m) = bestMatch.EndPos m"
  "Relevant (scoreMatch df a m) = Relevant m"
  by (simp_all add: scoreMatch_def Let_def)

lemma anchorMatch_Inr:
  "anchorMatch res df relLength w rv3 i = Inr m \<Longrightarrow>
   m = scoreMatch df (rv3 ! i) (bracketMatch res relLength w rv3 i)"
  by (auto simp: anchorMatch_def Let_def split: sum.splits)

text \<open>
  The claim C3 as stated fails: with no count for the anchor's term in the frequency
  index the divisor is 0, not 1, and the score of the bracket is the infinity of
  \<^verbatim>\<open>float64\<close>, not \<open>(1 + 0) / 1\<close>. Nothing panics: the snippet is returned.
\<close>

theorem missing_frequency_gives_infinite_score:
  "lookupInt Map.empty (Word ccMatch) = 0
   \<and> anchorMatch spacedJob Map.empty 4 2 [ccMatch] 0 =
       Inr \<lparr>bestMatch.StartPos = 10, bestMatch.EndPos = 14, bestMatch.Score = PInf,
            Relevant = [ccMatch]\<rparr>
   \<and> PInf \<noteq> Fin ((1 + 0) / 1)
   \<and> extractRelevantV3 spacedJob Map.empty 4 ellipsis =
       Inr \<lparr>Snippet.Content = ellipsis @ ''cccc'' @ ellipsis,
            Snippet.StartPos = 10, Snippet.EndPos = 14\<rparr>"
  by (intro conjI; code_simp)

text \<open>
  C3, amended. For every anchor of \<^verbatim>\<open>extractRelevantV3\<close> whose bracket is built without a
  panic, the members of the bracket are the anchor and the matches the two slides
  captured, and the score is 1 plus the number of captured matches, divided by the
  anchor term's count in the supplied frequency index when that count is not zero.
  A count that is missing or zero is not replaced by 1: the division is the
  floating-point division by zero and the score is \<open>+Inf\<close>; no division fault occurs.
\<close>

theorem anchorMatch_score:
  assumes "i < length rv3"
    and "anchorMatch res documentFrequencies relLength wrapLength rv3 i = Inr m"
    and "count = lookupInt documentFrequencies (Word (rv3 ! i))"
    and "captured =
           takeWhile (\<lambda>c. End (rv3 ! i) - relevantV3.Start c \<le> wrapLength) (rev (take i rv3))
           @ takeWhile (\<lambda>c. End c - relevantV3.Start (rv3 ! i) \<le> wrapLength) (drop (Suc i) rv3)"
  shows "Relevant m = rv3 ! i # captured
       \<and> (count \<noteq> 0 \<longrightarrow>
            bestMatch.Score m = Fin ((1 + of_nat (length captured)) / of_int count))
       \<and> (count = 0 \<longrightarrow> bestMatch.Score m = PInf)"
proof -
  let ?b = "bracketMatch res relLength wrapLength rv3 i"
  have m: "m = scoreMatch documentFrequencies (rv3 ! i) ?b"
    using assms(2) by (rule anchorMatch_Inr)
  have rel: "Relevant ?b = rv3 ! i # captured"
    by (simp add: bracketMatch_Relevant assms(4))
  have sc: "bestMatch.Score m = fdiv (Fin (of_nat (length (Relevant ?b)))) (Fin (of_int count))"
    by (simp add: m scoreMatch_Score bracketMatch_Score assms(3))
  have "Relevant m = rv3 ! i # captured"
    by (simp add: m scoreMatch_bounds rel)
  moreover have "bestMatch.Score m = Fin ((1 + of_nat (length captured)) / of_int count)"
    if "count \<noteq> 0"
    using that by (simp add: sc rel)
  moreover have "bestMatch.Score m = PInf" if "count = 0"
    using that by (simp add: sc rel)
  ultimately show ?thesis by simp
qed

theorem anchorMatch_score_witness:
  "(0::nat) < length [ccMatch, ddMatch]
   \<and> anchorMatch pairJob [''cc'' \<mapsto> 4, ''dd'' \<mapsto> 1] 12 6 [ccMatch, ddMatch] 0 =
       Inr \<lparr>bestMatch.StartPos = 8, bestMatch.EndPos = 20, bestMatch.Score = Fin (1 / 2),
            Relevant = [ccMatch, ddMatch]\<rparr>
   \<and> lookupInt [''cc'' \<mapsto> 4, ''dd'' \<mapsto> 1] (Word ccMatch) = 4
   \<and> Fin (1 / 2) = Fin ((1 + of_nat (length [ddMatch])) / of_int 4)"
proof -
  let ?df = "[''cc'' \<mapsto> 4, ''dd'' \<mapsto> (1::int)]"
  let ?m = "\<lparr>bestMatch.StartPos = 8, bestMatch.EndPos = 20, bestMatch.Score = Fin (1 / 2),
            Relevant = [ccMatch, ddMatch]\<rparr>"
  have i: "(0::nat) < length [ccMatch, ddMatch]" by simp
  have e: "anchorMatch pairJob ?df 12 6 [ccMatch, ddMatch] 0 = Inr ?m"
    by code_simp
  have c: "lookupInt ?df (Word ccMatch) = 4"
    by (simp add: lookupInt_def ccMatch_def)
  from anchorMatch_score [OF i e refl refl]
  have "bestMatch.Score ?m = Fin ((1 + of_nat (length [ddMatch])) / of_int 4)"
    by (simp add: c ccMatch_def ddMatch_def)
  then show ?thesis using i e c by simp
qed

section \<open>What extractRelevantV3 returns\<close>

lemma collect_Inr_set:
  "collect f xs = Inr ys \<Longrightarrow> y \<in> set ys \<Longrightarrow> \<exists>x \<in> set xs. f x = Inr y"
  by (induction xs arbitrary: ys) (auto split: sum.splits)

lemma set_insertLess: "set (insertLess lt x ys) = insert x (set ys)"
  by (induction ys) auto

lemma set_foldl_insertLess:
  "set (foldl (\<lambda>acc x. insertLess lt x acc) acc xs) = set acc \<union> set xs"
  by (induction xs arbitrary: acc) (auto simp: set_insertLess)

lemma set_sortSlice: "set (sortSlice lt xs) = set xs"
  by (simp add: sortSlice_def set_foldl_insertLess)

lemma extractRelevantV3_unfold:
  assumes "rv3 = sortSlice (\<lambda>x y. relevantV3.Start x < relevantV3.Start y)
                 (flattenLocations (fileJob.MatchLocations res))"
  shows "extractRelevantV3 res df relLength indicator =
    (case collect (anchorMatch res df relLength (goDiv relLength 2) rv3) [0..<length rv3] of
       Inl e \<Rightarrow> Inl e
     | Inr ms \<Rightarrow>
         (case sortSlice (\<lambda>x y. fgt (bestMatch.Score x) (bestMatch.Score y)) ms of
            [] \<Rightarrow> Inl IndexOutOfRange
          | b # _ \<Rightarrow>
              (case sliceBytes (fileJob.Content res) (bestMatch.StartPos b) (bestMatch.EndPos b) of
                 Inl e \<Rightarrow> Inl e
               | Inr bs \<Rightarrow>
                   Inr \<lparr>Snippet.Content = indicator @ bs @ indicator,
                        Snippet.StartPos = bestMatch.StartPos b,
                        Snippet.EndPos = bestMatch.EndPos b\<rparr>)))"
  unfolding extractRelevantV3_def Let_def assms ..


lemma sum_case_Inr:
  assumes "(case c of Inl e \<Rightarrow> Inl e | Inr y \<Rightarrow> g y) = Inr r"
  obtains y where "c = Inr y" "g y = Inr r"
  using assms by (cases c) simp_all

lemma list_case_Inr:
  assumes "(case xs of [] \<Rightarrow> Inl e | x # _ \<Rightarrow> g x) = Inr r"
  obtains x rest where "xs = x # rest" "g x = Inr r"
  using assms by (cases xs) simp_all

lemma extractRelevantV3_Inr:
  assumes "extractRelevantV3 res df relLength indicator = Inr sn"
    and "rv3 = sortSlice (\<lambda>x y. relevantV3.Start x < relevantV3.Start y)
                 (flattenLocations (fileJob.MatchLocations res))"
  obtains i b bs where "i < length rv3"
    and "anchorMatch res df relLength (goDiv relLength 2) rv3 i = Inr b"
    and "sliceBytes (fileJob.Content res) (bestMatch.StartPos b) (bestMatch.EndPos b) = Inr bs"
    and "sn = \<lparr>Snippet.Content = indicator @ bs @ indicator,
                    Snippet.StartPos = bestMatch.StartPos b,
                    Snippet.EndPos = bestMatch.EndPos b\<rparr>"
proof -
  let ?f = "anchorMatch res df relLength (goDiv relLength 2) rv3"
  let ?lt = "\<lambda>x y. fgt (bestMatch.Score x) (bestMatch.Score y)"
  note e = assms(1) [unfolded extractRelevantV3_unfold [OF assms(2)]]
  from e obtain ms where ms: "collect ?f [0..<length rv3] = Inr ms"
    and e1: "(case sortSlice ?lt ms of
            [] \<Rightarrow> Inl IndexOutOfRange
          | b # _ \<Rightarrow>
              (case sliceBytes (fileJob.Content res) (bestMatch.StartPos b) (bestMatch.EndPos b) of
                 Inl e \<Rightarrow> Inl e
               | Inr bs \<Rightarrow>
                   Inr \<lparr>Snippet.Content = indicator @ bs @ indicator,
                        Snippet.StartPos = bestMatch.StartPos b,
                        Snippet.EndPos = bestMatch.EndPos b\<rparr>)) = Inr sn"
    by (rule sum_case_Inr)
  from e1 obtain b rest where b: "sortSlice ?lt ms = b # rest"
    and e2: "(case sliceBytes (fileJob.Content res) (bestMatch.StartPos b) (bestMatch.EndPos b) of
                 Inl e \<Rightarrow> Inl e
               | Inr bs \<Rightarrow>
                   Inr \<lparr>Snippet.Content = indicator @ bs @ indicator,
                        Snippet.StartPos = bestMatch.StartPos b,
                        Snippet.EndPos = bestMatch.EndPos b\<rparr>) = Inr sn"
    by (rule list_case_Inr)
  from e2 obtain bs where
    bs: "sliceBytes (fileJob.Content res) (bestMatch.StartPos b) (bestMatch.EndPos b) = Inr bs"
    and e3: "Inr \<lparr>Snippet.Content = indicator @ bs @ indicator,
                        Snippet.StartPos = bestMatch.StartPos b,
                        Snippet.EndPos = bestMatch.EndPos b\<rparr> = (Inr sn :: error + Snippet)"
    by (rule sum_case_Inr)
  from e3 have sn: "sn = \<lparr>Snippet.Content = indicator @ bs @ indicator,
                    Snippet.StartPos = bestMatch.StartPos b,
                    Snippet.EndPos = bestMatch.EndPos b\<rparr>"
    by simp
  have "b \<in> set (sortSlice ?lt ms)" by (simp add: b)
  then have "b \<in> set ms" by (simp add: set_sortSlice)
  from collect_Inr_set [OF ms this] obtain i where "i \<in> set [0..<length rv3]" "?f i = Inr b" ..
  then have "i < length rv3" by simp
  then show ?thesis using \<open>?f i = Inr b\<close> bs sn by (rule that)
qed

text \<open>
  Whenever \<^verbatim>\<open>extractRelevantV3\<close> returns, the content of the snippet is the indicator, the
  bytes of the document from \<^verbatim>\<open>StartPos\<close> up to \<^verbatim>\<open>EndPos\<close>, and the indicator again:
  line 436 slices \<^verbatim>\<open>res.Content\<close> by byte offsets and moves no boundary.
\<close>

lemma snippet_is_byte_slice:
  assumes "extractRelevantV3 res df relLength indicator = Inr sn"
  shows "0 \<le> Snippet.StartPos sn \<and> Snippet.StartPos sn \<le> Snippet.EndPos sn
       \<and> Snippet.EndPos sn \<le> int (length (fileJob.Content res))
       \<and> Snippet.Content sn =
           indicator
           @ take (nat (Snippet.EndPos sn - Snippet.StartPos sn))
               (drop (nat (Snippet.StartPos sn)) (fileJob.Content res))
           @ indicator"
proof (rule extractRelevantV3_Inr [OF assms refl])
  fix i b bs
  assume bs: "sliceBytes (fileJob.Content res) (bestMatch.StartPos b) (bestMatch.EndPos b) = Inr bs"
    and sn: "sn = \<lparr>Snippet.Content = indicator @ bs @ indicator,
                    Snippet.StartPos = bestMatch.StartPos b,
                    Snippet.EndPos = bestMatch.EndPos b\<rparr>"
  from bs have "0 \<le> bestMatch.StartPos b \<and> bestMatch.StartPos b \<le> bestMatch.EndPos b
      \<and> bestMatch.EndPos b \<le> int (length (fileJob.Content res))
      \<and> bs = take (nat (bestMatch.EndPos b - bestMatch.StartPos b))
               (drop (nat (bestMatch.StartPos b)) (fileJob.Content res))"
    by (simp add: sliceBytes_def split: if_splits)
  then show ?thesis by (simp add: sn)
qed

lemma rangeOffsets_bounds:
  "x \<in> set (rangeOffsets s j k) \<Longrightarrow> j \<le> x \<and> x < j + int (length s)"
  by (induction s j k rule: rangeOffsets.induct) (auto split: if_splits)

lemma rangeOffsets_sorted: "sorted (rangeOffsets s j k)"
proof (induction s j k rule: rangeOffsets.induct)
  case (1 j pending)
  then show ?case by simp
next
  case (2 b bs j pending)
  then show ?case
    by (auto dest!: rangeOffsets_bounds)
qed

lemma runeBoundary_zero: "runeBoundary s 0"
  by (cases s) (simp_all add: runeBoundary_def)

lemma subStringLoop_boundaries:
  assumes "sorted js" "\<forall>j \<in> set js. idx \<le> j \<and> runeBoundary s j"
    and "runeBoundary s idx" "0 \<le> idx"
  shows "\<exists>a b. runeBoundary s a \<and> runeBoundary s b \<and> 0 \<le> a \<and> a \<le> b
          \<and> subStringLoop s js i idx start end = Inr (take (nat (b - a)) (drop (nat a) s))"
  using assms
proof (induction js arbitrary: i idx)
  case Nil
  have le: "idx \<le> int (length s)"
    using Nil.prems(3) rangeOffsets_bounds [of idx s 0 0] by (auto simp: runeBoundary_def)
  have "runeBoundary s (int (length s))" by (simp add: runeBoundary_def)
  moreover have "subStringLoop s [] i idx start end
        = Inr (take (nat (int (length s) - idx)) (drop (nat idx) s))"
    using le Nil.prems(4) by (simp add: sliceBytes_def)
  ultimately show ?case using Nil.prems(3,4) le by blast
next
  case (Cons j js)
  define idx' where "idx' = (if i = start then j else idx)"
  have j: "runeBoundary s j" "idx \<le> j" using Cons.prems(2) by simp_all
  have jl: "j \<le> int (length s)"
    using j(1) rangeOffsets_bounds [of j s 0 0] by (auto simp: runeBoundary_def)
  have idx': "runeBoundary s idx'" "0 \<le> idx'" "idx' \<le> j"
    using j Cons.prems(3,4) by (auto simp: idx'_def)
  show ?case
  proof (cases "i = end")
    case True
    then have "subStringLoop s (j # js) i idx start end
        = Inr (take (nat (j - idx')) (drop (nat idx') s))"
      using idx' jl by (simp add: idx'_def Let_def sliceBytes_def)
    then show ?thesis using idx' j(1) by blast
  next
    case False
    then have step: "subStringLoop s (j # js) i idx start end
        = subStringLoop s js (i + 1) idx' start end"
      by (simp add: idx'_def Let_def)
    have "sorted js" using Cons.prems(1) by simp
    moreover have "\<forall>j' \<in> set js. idx' \<le> j' \<and> runeBoundary s j'"
      using Cons.prems(1,2) by (auto simp: idx'_def)
    ultimately show ?thesis
      unfolding step using idx'(1,2) by (rule Cons.IH)
  qed
qed

text \<open>
  The helper through which \<^verbatim>\<open>extractRelevantV1\<close> and \<^verbatim>\<open>extractRelevantV2\<close> render never
  panics and never cuts a character: whatever the two positions are, it returns the
  bytes between two offsets at which characters begin (or the string ends).
\<close>

lemma subString_whole_characters:
  "\<exists>a b. runeBoundary s a \<and> runeBoundary s b \<and> 0 \<le> a \<and> a \<le> b
         \<and> subString s start end = Inr (take (nat (b - a)) (drop (nat a) s))"
  unfolding subString_def
proof (rule subStringLoop_boundaries)
  show "sorted (rangeOffsets s 0 0)" by (rule rangeOffsets_sorted)
  show "\<forall>j \<in> set (rangeOffsets s 0 0). 0 \<le> j \<and> runeBoundary s j"
    using rangeOffsets_bounds [of _ s 0 0] by (auto simp: runeBoundary_def)
  show "runeBoundary s 0" by (rule runeBoundary_zero)
  show "(0::int) \<le> 0" by simp
qed


text \<open>
  C7. The claim: the rendered content is the indicator, \<^verbatim>\<open>content[StartPos:EndPos]\<close> and the
  indicator, and the slice never splits a multi-byte character. The code at a document
  in which the term matches right after a two-byte character, with the target length 3:
  padding by one byte puts \<^verbatim>\<open>StartPos\<close> at offset 1, inside that character, and the
  excerpt begins with its second byte: offset 1 is no character boundary. \<^verbatim>\<open>subString\<close>,
  through which the two older extractors render, returns characters 1 to 3 for the same
  positions.
\<close>

theorem excerpt_splits_character:
  "extractRelevantV3 accentJob [''a'' \<mapsto> 1] 3 ellipsis =
     Inr \<lparr>Snippet.Content = ellipsis @ [CHR 0xA9, CHR ''a'', CHR ''b''] @ ellipsis,
          Snippet.StartPos = 1, Snippet.EndPos = 4\<rparr>
   \<and> \<not> runeBoundary (fileJob.Content accentJob) 1
   \<and> subString (fileJob.Content accentJob) 1 4 = Inr ''abc''"
  by (intro conjI; code_simp)

section \<open>The boundary cleanup\<close>

text \<open>The bracket depends on the content through its length only.\<close>

lemma bracketMatch_length:
  assumes "length (fileJob.Content res') = length (fileJob.Content res)"
  shows "bracketMatch res' relLength wrapLength rv3 i = bracketMatch res relLength wrapLength rv3 i"
  unfolding bracketMatch_def assms ..

text \<open>
  Whenever the body of the loop builds a candidate without a panic, the two boundaries of
  the candidate are those of the padded bracket: the results of the two calls of
  \<^verbatim>\<open>findNearbySpace\<close> reach nothing, and the boundaries are the same for every content of
  the same length.
\<close>

lemma anchorMatch_keeps_bracket:
  assumes "i < length rv3"
    and "anchorMatch res df relLength wrapLength rv3 i = Inr m"
  shows "bestMatch.StartPos m = bestMatch.StartPos (bracketMatch res relLength wrapLength rv3 i)
       \<and> bestMatch.EndPos m = bestMatch.EndPos (bracketMatch res relLength wrapLength rv3 i)
       \<and> (\<forall>res' m'. length (fileJob.Content res') = length (fileJob.Content res) \<longrightarrow>
             anchorMatch res' df relLength wrapLength rv3 i = Inr m' \<longrightarrow>
             bestMatch.StartPos m' = bestMatch.StartPos m
             \<and> bestMatch.EndPos m' = bestMatch.EndPos m)"
proof (intro conjI allI impI)
  show m1: "bestMatch.StartPos m = bestMatch.StartPos (bracketMatch res relLength wrapLength rv3 i)"
    using anchorMatch_Inr [OF assms(2)] by (simp add: scoreMatch_bounds)
  show m2: "bestMatch.EndPos m = bestMatch.EndPos (bracketMatch res relLength wrapLength rv3 i)"
    using anchorMatch_Inr [OF assms(2)] by (simp add: scoreMatch_bounds)
  fix res' m'
  assume l: "length (fileJob.Content res') = length (fileJob.Content res)"
    and e: "anchorMatch res' df relLength wrapLength rv3 i = Inr m'"
  have b: "bracketMatch res' relLength wrapLength rv3 i = bracketMatch res relLength wrapLength rv3 i"
    using l by (rule bracketMatch_length)
  have m': "m' = scoreMatch df (rv3 ! i) (bracketMatch res relLength wrapLength rv3 i)"
    using anchorMatch_Inr [OF e] unfolding b .
  show "bestMatch.StartPos m' = bestMatch.StartPos m"
    unfolding m1 m' by (simp add: scoreMatch_bounds)
  show "bestMatch.EndPos m' = bestMatch.EndPos m"
    unfolding m2 m' by (simp add: scoreMatch_bounds)
qed

text \<open>
  C8. The claim: after padding, each boundary of a candidate window is moved to a white
  space character if there is one within 10 bytes of it, and the step never fails. The
  code at a document with a space one byte to the left of the padded \<^verbatim>\<open>StartPos\<close>:
  \<^verbatim>\<open>findNearbySpace\<close> finds the space at offset 9, line 400 drops what it returns, and the
  boundary stays at offset 10 in the candidate and in the snippet returned. At a boundary
  equal to the length of the content the call panics.
\<close>

theorem boundary_not_moved_to_space:
  "bestMatch.StartPos (bracketMatch spacedJob 4 2 [ccMatch] 0) = 10
   \<and> findNearbySpace spacedJob 10 10 = Inr (9, True)
   \<and> anchorMatch spacedJob [''cc'' \<mapsto> 1] 4 2 [ccMatch] 0 =
       Inr \<lparr>bestMatch.StartPos = 10, bestMatch.EndPos = 14, bestMatch.Score = Fin 1,
            Relevant = [ccMatch]\<rparr>
   \<and> extractRelevantV3 spacedJob [''cc'' \<mapsto> 1] 4 ellipsis =
       Inr \<lparr>Snippet.Content = ellipsis @ ''cccc'' @ ellipsis,
            Snippet.StartPos = 10, Snippet.EndPos = 14\<rparr>
   \<and> findNearbySpace shortJob (int (length (fileJob.Content shortJob))) 10 = Inl IndexOutOfRange"
  by (intro conjI; code_simp)

text \<open>The window of the snippet returned is the padded bracket of one of the anchors.\<close>

lemma snippet_is_padded_bracket:
  assumes "extractRelevantV3 res df relLength indicator = Inr sn"
    and "rv3 = sortSlice (\<lambda>x y. relevantV3.Start x < relevantV3.Start y)
                 (flattenLocations (fileJob.MatchLocations res))"
  shows "\<exists>i < length rv3.
           Snippet.StartPos sn = bestMatch.StartPos (bracketMatch res relLength (goDiv relLength 2) rv3 i)
         \<and> Snippet.EndPos sn = bestMatch.EndPos (bracketMatch res relLength (goDiv relLength 2) rv3 i)"
proof (rule extractRelevantV3_Inr [OF assms])
  fix i b bs
  assume i: "i < length rv3"
    and b: "anchorMatch res df relLength (goDiv relLength 2) rv3 i = Inr b"
    and sn: "sn = \<lparr>Snippet.Content = indicator @ bs @ indicator,
                    Snippet.StartPos = bestMatch.StartPos b,
                    Snippet.EndPos = bestMatch.EndPos b\<rparr>"
  from anchorMatch_Inr [OF b] have
    "bestMatch.StartPos b = bestMatch.StartPos (bracketMatch res relLength (goDiv relLength 2) rv3 i)"
    "bestMatch.EndPos b = bestMatch.EndPos (bracketMatch res relLength (goDiv relLength 2) rv3 i)"
    by (simp_all add: scoreMatch_bounds)
  then have "Snippet.StartPos sn = bestMatch.StartPos (bracketMatch res relLength (goDiv relLength 2) rv3 i)
         \<and> Snippet.EndPos sn = bestMatch.EndPos (bracketMatch res relLength (goDiv relLength 2) rv3 i)"
    by (simp add: sn)
  with i show ?thesis by blast
qed


section \<open>Highlight offsets\<close>

lemma remapRanges_eq:
  "remapRanges sp ep v l =
     (l @ [(s - sp, e - sp). (s, e) \<leftarrow> v, sp \<le> s \<and> e \<le> ep],
      map (\<lambda>(s, e). if sp \<le> s \<and> e \<le> ep then (s - sp, e - sp) else (s, e)) v)"
  by (induction v arbitrary: l) (auto simp: Let_def)

lemma remapLocations_eq:
  "remapLocations sp ep ml l =
     (l @ [(s - sp, e - sp). (k, v) \<leftarrow> ml, (s, e) \<leftarrow> v, sp \<le> s \<and> e \<le> ep],
      map (\<lambda>(k, v). (k, map (\<lambda>(s, e). if sp \<le> s \<and> e \<le> ep then (s - sp, e - sp) else (s, e)) v)) ml)"
  by (induction ml arbitrary: l) (auto simp: Let_def remapRanges_eq)



text \<open>What \<^verbatim>\<open>formatJson\<close> emits and leaves behind for one document.\<close>

lemma formatJsonDoc_Inr:
  assumes "formatJsonDoc df n res = Inr (r, res')"
  obtains v3 where "extractRelevantV3 res df n ellipsis = Inr v3"
    and "jsonResult.MatchLocations r =
           [(s - Snippet.StartPos v3, e - Snippet.StartPos v3).
              (k, v) \<leftarrow> fileJob.MatchLocations res, (s, e) \<leftarrow> v,
              Snippet.StartPos v3 \<le> s \<and> e \<le> Snippet.EndPos v3]"
    and "fileJob.MatchLocations res' =
           map (\<lambda>(k, v). (k, map (\<lambda>(s, e). if Snippet.StartPos v3 \<le> s \<and> e \<le> Snippet.EndPos v3
                                         then (s - Snippet.StartPos v3, e - Snippet.StartPos v3)
                                         else (s, e)) v))
             (fileJob.MatchLocations res)"
proof (cases "extractRelevantV3 res df n ellipsis")
  case (Inl e)
  with assms show ?thesis by (simp add: formatJsonDoc_def)
next
  case (Inr v3)
  with assms have
    "jsonResult.MatchLocations r =
       fst (remapLocations (Snippet.StartPos v3) (Snippet.EndPos v3) (fileJob.MatchLocations res) [])"
    "fileJob.MatchLocations res' =
       snd (remapLocations (Snippet.StartPos v3) (Snippet.EndPos v3) (fileJob.MatchLocations res) [])"
    by (auto simp: formatJsonDoc_def Let_def split: prod.splits)
  then show ?thesis using Inr by (intro that [of v3]) (simp_all add: remapLocations_eq)
qed

text \<open>The other fields of the document are the ones it came with.\<close>

lemma formatJsonDoc_frame:
  assumes "formatJsonDoc df n res = Inr (r, res')"
  shows "res' = res\<lparr>fileJob.MatchLocations := fileJob.MatchLocations res'\<rparr>"
proof (cases "extractRelevantV3 res df n ellipsis")
  case (Inl e)
  with assms show ?thesis by (simp add: formatJsonDoc_def)
next
  case (Inr v3)
  with assms show ?thesis
    by (auto simp: formatJsonDoc_def Let_def split: prod.splits)
qed

text \<open>
  The loop of \<^verbatim>\<open>formatDefault\<close> over the snippets of a document reads the match
  locations again for each snippet. After a first window \<open>[10, 14]\<close> the range
  \<open>[11, 13)\<close> is stored as \<open>[1, 3)\<close>, and a second window \<open>[0, 5]\<close> of the same document
  takes it for a range of its own, though no match lies in the first five bytes.
\<close>

lemma stale_offsets_reach_next_snippet:
  "snd (remapLocations 10 14 (fileJob.MatchLocations spacedJob) []) = [(''cc'', [(1, 3)])]
   \<and> fst (remapLocations 0 5 (snd (remapLocations 10 14 (fileJob.MatchLocations spacedJob) [])) [])
       = [(1, 3)]
   \<and> fst (remapLocations 0 5 (fileJob.MatchLocations spacedJob) []) = []"
  by (intro conjI; code_simp)

text \<open>
  C6. The claim: snippet extraction and highlight remapping leave every field of a
  document but the score unchanged, and the map of match locations still holds the
  absolute offsets afterwards. The code at a document whose window starts at offset 10:
  the range \<open>[11, 13)\<close> lies inside the window, the loop subtracts 10 from both of its
  ends through the slice \<^verbatim>\<open>s\<close>, and the document's map holds \<open>[1, 3)\<close> when
  \<^verbatim>\<open>formatJson\<close> or \<^verbatim>\<open>formatDefault\<close> is done with it.
\<close>

theorem remap_overwrites_match_locations:
  "fileJob.MatchLocations spacedJob = [(''cc'', [(11, 13)])]
   \<and> formatJson 4 [spacedJob] =
       Inr [(\<lparr>jsonResult.Filename = ''f.go'', jsonResult.Location = ''f.go'',
              jsonResult.Content = ellipsis @ ''cccc'' @ ellipsis, jsonResult.Score = Fin 0,
              jsonResult.MatchLocations = [(1, 3)]\<rparr>,
             spacedJob\<lparr>fileJob.MatchLocations := [(''cc'', [(1, 3)])]\<rparr>)]
   \<and> formatDefault (\<lambda>c l b e. c) True 1 4 [spacedJob] =
       Inr [([ellipsis @ ''cccc'' @ ellipsis],
             spacedJob\<lparr>fileJob.MatchLocations := [(''cc'', [(1, 3)])]\<rparr>)]"
  by (intro conjI; code_simp)

section \<open>Document frequency\<close>

lemma lookupInt_upd: "lookupInt (m(k \<mapsto> c)) t = (if t = k then c else lookupInt m t)"
  by (simp add: lookupInt_def)

lemma lookupInt_addTermCounts:
  "distinct (map fst ml) \<Longrightarrow>
   lookupInt (addTermCounts ml m) t =
     lookupInt m t + (case map_of ml t of None \<Rightarrow> 0 | Some v \<Rightarrow> int (length v))"
proof (induction ml arbitrary: m)
  case Nil
  then show ?case by simp
next
  case (Cons kv ml)
  obtain k v where kv: "kv = (k, v)" by (cases kv)
  define c where "c = lookupInt m k + int (length v)"
  from Cons.prems have d: "distinct (map fst ml)" and k: "k \<notin> fst ` set ml"
    by (simp_all add: kv)
  have none: "map_of ml k = None" using k by (simp add: map_of_eq_None_iff)
  have "lookupInt (addTermCounts (kv # ml) m) t = lookupInt (addTermCounts ml (m(k \<mapsto> c))) t"
    unfolding kv c_def addTermCounts.simps ..
  also have "\<dots> = lookupInt (m(k \<mapsto> c)) t
      + (case map_of ml t of None \<Rightarrow> 0 | Some v \<Rightarrow> int (length v))"
    by (rule Cons.IH [OF d])
  also have "lookupInt (m(k \<mapsto> c)) t = (if t = k then c else lookupInt m t)"
    by (rule lookupInt_upd)
  finally show ?case
    using none by (cases "t = k") (simp_all add: kv c_def)
qed

lemma dom_addTermCounts: "dom (addTermCounts ml m) = dom m \<union> fst ` set ml"
proof (induction ml arbitrary: m)
  case Nil
  then show ?case by simp
next
  case (Cons kv ml)
  obtain k v where kv: "kv = (k, v)" by (cases kv)
  define c where "c = lookupInt m k + int (length v)"
  have "dom (addTermCounts (kv # ml) m) = dom (addTermCounts ml (m(k \<mapsto> c)))"
    unfolding kv c_def addTermCounts.simps ..
  also have "\<dots> = dom (m(k \<mapsto> c)) \<union> fst ` set ml"
    by (rule Cons.IH)
  also have "dom (m(k \<mapsto> c)) = insert k (dom m)"
    by simp
  finally show ?case by (simp add: kv)
qed

lemma lookupInt_From:
  "\<forall>res \<in> set results. distinct (map fst (fileJob.MatchLocations res)) \<Longrightarrow>
   lookupInt (calculateDocumentTermFrequencyFrom m results) t =
     lookupInt m t + (\<Sum>res\<leftarrow>results. termRangeCount res t)"
  by (induction results arbitrary: m) (auto simp: lookupInt_addTermCounts termRangeCount_def)

lemma dom_From:
  "dom (calculateDocumentTermFrequencyFrom m results) =
     dom m \<union> (\<Union>res \<in> set results. fst ` set (fileJob.MatchLocations res))"
  by (induction results arbitrary: m) (auto simp: dom_addTermCounts)

text \<open>
  C9. For every batch whose documents' maps have one entry for each term, the document
  frequency of a term is the sum over the documents of the batch of the number of ranges
  the document records for the term; the terms of the frequency map are the terms of
  the documents, and the empty batch gives the empty map.
\<close>

theorem document_frequency_is_sum:
  assumes "\<forall>res \<in> set results. distinct (map fst (fileJob.MatchLocations res))"
  shows "lookupInt (calculateDocumentTermFrequency results) t = (\<Sum>res\<leftarrow>results. termRangeCount res t)
       \<and> dom (calculateDocumentTermFrequency results)
           = (\<Union>res \<in> set results. fst ` set (fileJob.MatchLocations res))
       \<and> calculateDocumentTermFrequency [] = Map.empty"
  using lookupInt_From [OF assms, of Map.empty t]
  by (simp add: calculateDocumentTermFrequency_def dom_From lookupInt_def)

theorem document_frequency_is_sum_witness:
  "distinct (map fst (fileJob.MatchLocations testJob))
   \<and> termRangeCount testJob ''test'' = 3
   \<and> lookupInt (calculateDocumentTermFrequency [testJob, testJob]) ''test'' = 6
   \<and> dom (calculateDocumentTermFrequency [testJob, testJob]) = {''test''}"
proof -
  have d: "\<forall>res \<in> set [testJob, testJob]. distinct (map fst (fileJob.MatchLocations res))"
    by (simp add: testJob_def jobWith_def)
  have c: "termRangeCount testJob ''test'' = 3"
    by (simp add: termRangeCount_def testJob_def jobWith_def)
  have m: "fst ` set (fileJob.MatchLocations testJob) = {''test''}"
    by (simp add: testJob_def jobWith_def)
  have d': "distinct (map fst (fileJob.MatchLocations testJob))"
    using d by simp
  show ?thesis
    using d' c document_frequency_is_sum [OF d, of "''test''"] by (simp add: m)
qed


text \<open>
  In both formatters the frequency index is built from the batch the document belongs
  to, so the count of every anchor's term is at least 1 there.
\<close>

lemma termRangeCount_nonneg: "0 \<le> termRangeCount res t"
  by (simp add: termRangeCount_def split: option.splits)

lemma member_le_sum_termRangeCount:
  "res \<in> set results \<Longrightarrow> termRangeCount res t \<le> (\<Sum>r\<leftarrow>results. termRangeCount r t)"
proof (induction results)
  case Nil
  then show ?case by simp
next
  case (Cons r results)
  have "0 \<le> (\<Sum>r\<leftarrow>results. termRangeCount r t)"
    by (rule sum_list_nonneg) (auto simp: termRangeCount_nonneg)
  with Cons show ?case
    using termRangeCount_nonneg [of r t] by auto
qed

lemma termRangeCount_anchor:
  assumes "a \<in> set (flattenLocations (fileJob.MatchLocations res))"
    and "distinct (map fst (fileJob.MatchLocations res))"
  shows "1 \<le> termRangeCount res (Word a)"
proof -
  from assms(1) obtain k v where kv: "(k, v) \<in> set (fileJob.MatchLocations res)"
    and w: "Word a = k" and v: "v \<noteq> []"
    by (fastforce simp: flattenLocations_def)
  from kv assms(2) have "map_of (fileJob.MatchLocations res) k = Some v"
    by simp
  with v show ?thesis
    by (cases v) (simp_all add: termRangeCount_def w)
qed

lemma batch_frequency_positive:
  assumes "\<forall>r \<in> set results. distinct (map fst (fileJob.MatchLocations r))"
    and "res \<in> set results"
    and "a \<in> set (flattenLocations (fileJob.MatchLocations res))"
  shows "1 \<le> lookupInt (calculateDocumentTermFrequency results) (Word a)"
proof -
  have "1 \<le> termRangeCount res (Word a)"
    using assms by (intro termRangeCount_anchor) auto
  also have "\<dots> \<le> (\<Sum>r\<leftarrow>results. termRangeCount r (Word a))"
    using assms(2) by (rule member_le_sum_termRangeCount)
  also have "\<dots> = lookupInt (calculateDocumentTermFrequency results) (Word a)"
    using lookupInt_From [OF assms(1), of Map.empty "Word a"]
    by (simp add: calculateDocumentTermFrequency_def lookupInt_def)
  finally show ?thesis .
qed

section \<open>The order of the map's entries\<close>

lemma insertLess_sorted:
  "sorted_wrt (\<lambda>x y. key y \<le> (key x :: int)) acc \<Longrightarrow>
   sorted_wrt (\<lambda>x y. key y \<le> key x) (insertLess (\<lambda>x y. key x < key y) a acc)"
  by (induction acc) (auto simp: set_insertLess)

lemma foldl_insertLess_sorted:
  "sorted_wrt (\<lambda>x y. key y \<le> (key x :: int)) acc \<Longrightarrow>
   sorted_wrt (\<lambda>x y. key y \<le> key x)
     (foldl (\<lambda>acc x. insertLess (\<lambda>x y. key x < key y) x acc) acc xs)"
  by (induction xs arbitrary: acc) (simp_all add: insertLess_sorted)

lemma sortSlice_sorted:
  "sorted_wrt (\<lambda>x y. (key x :: int) \<le> key y) (sortSlice (\<lambda>x y. key x < key y) xs)"
proof -
  have "sorted_wrt (\<lambda>x y. key y \<le> key x)
          (foldl (\<lambda>acc x. insertLess (\<lambda>x y. key x < key y) x acc) [] xs)"
    by (rule foldl_insertLess_sorted) simp
  then show ?thesis
    by (simp add: sortSlice_def sorted_wrt_rev)
qed

lemma distinct_insertLess:
  "distinct (map key (insertLess lt a acc)) = (key a \<notin> key ` set acc \<and> distinct (map key acc))"
  by (induction acc) (auto simp: set_insertLess)

lemma distinct_sortSlice:
  "distinct (map key (sortSlice lt xs)) = distinct (map key xs)"
proof -
  have "distinct (map key (foldl (\<lambda>acc x. insertLess lt x acc) acc xs))
          = distinct (map key (acc @ xs))" for acc
    by (induction xs arbitrary: acc) (auto simp: distinct_insertLess set_insertLess)
  from this [of "[]"] show ?thesis
    by (simp add: sortSlice_def rev_map [symmetric])
qed

lemma sortSlice_unique:
  fixes key :: "'a \<Rightarrow> int"
  assumes "set xs = set ys" "distinct (map key xs)" "distinct (map key ys)"
  shows "sortSlice (\<lambda>x y. key x < key y) xs = sortSlice (\<lambda>x y. key x < key y) ys"
proof -
  let ?s = "sortSlice (\<lambda>x y. key x < key y)"
  have srt: "sorted (map key (?s zs))" for zs
    using sortSlice_sorted [of key zs] by (simp add: sorted_wrt_map)
  have "set (map key (?s xs)) = set (map key (?s ys))"
    using assms(1) by (simp add: set_sortSlice)
  with srt [of xs] srt [of ys] have keys: "map key (?s xs) = map key (?s ys)"
    using assms(2,3) by (intro sorted_distinct_set_unique) (simp_all add: distinct_sortSlice)
  have "inj_on key (set (?s xs) \<union> set (?s ys))"
    using assms by (simp add: set_sortSlice distinct_map)
  with keys show ?thesis by (rule map_inj_on)
qed

lemma set_flattenLocations:
  "set ml = set ml' \<Longrightarrow> set (flattenLocations ml) = set (flattenLocations ml')"
  by (simp add: flattenLocations_def)

lemma findNearbySpace_Content:
  assumes "fileJob.Content res' = fileJob.Content res"
  shows "findNearbySpace res' pos d = findNearbySpace res pos d"
  unfolding findNearbySpace_def assms ..

lemma anchorMatch_Content:
  assumes "fileJob.Content res' = fileJob.Content res"
  shows "anchorMatch res' df relLength w rv3 = anchorMatch res df relLength w rv3"
proof
  fix i
  have "bracketMatch res' relLength w rv3 i = bracketMatch res relLength w rv3 i"
    unfolding bracketMatch_def assms ..
  then show "anchorMatch res' df relLength w rv3 i = anchorMatch res df relLength w rv3 i"
    unfolding anchorMatch_def findNearbySpace_Content [OF assms] by simp
qed

text \<open>
  When no two locations of a document start at the same offset, the sort puts them in
  one order whatever the order of the map, and the snippet does not depend on it.
\<close>

lemma extractRelevantV3_order_independent:
  assumes "fileJob.Content res' = fileJob.Content res"
    and "set (fileJob.MatchLocations res') = set (fileJob.MatchLocations res)"
    and "distinct (map relevantV3.Start (flattenLocations (fileJob.MatchLocations res)))"
    and "distinct (map relevantV3.Start (flattenLocations (fileJob.MatchLocations res')))"
  shows "extractRelevantV3 res' df relLength indicator = extractRelevantV3 res df relLength indicator"
proof -
  have "sortSlice (\<lambda>x y. relevantV3.Start x < relevantV3.Start y)
          (flattenLocations (fileJob.MatchLocations res'))
      = sortSlice (\<lambda>x y. relevantV3.Start x < relevantV3.Start y)
          (flattenLocations (fileJob.MatchLocations res))"
    using set_flattenLocations [OF assms(2)] assms(4) assms(3) by (rule sortSlice_unique)
  then show ?thesis
    unfolding extractRelevantV3_def assms(1) anchorMatch_Content [OF assms(1)] by simp
qed


text \<open>
  C4. The claim: \<^verbatim>\<open>extractRelevantV3\<close> returns the same snippet whatever the order in
  which the map of match locations is visited. The code at a document in which two
  terms match at the same offset: the sort compares \<^verbatim>\<open>Start\<close> only, the two locations
  stay in the order the map yielded them, and the slide from the first of them takes
  its \<^verbatim>\<open>EndPos\<close> from the second. One order of the map ends the window at 6, the other
  at 5.
\<close>

theorem map_order_changes_snippet:
  "tieJobB = tieJobA\<lparr>fileJob.MatchLocations := rev (fileJob.MatchLocations tieJobA)\<rparr>
   \<and> extractRelevantV3 tieJobA tieFrequencies 10 ellipsis =
       Inr \<lparr>Snippet.Content = ellipsis @ ''ab cde'' @ ellipsis,
            Snippet.StartPos = 0, Snippet.EndPos = 6\<rparr>
   \<and> extractRelevantV3 tieJobB tieFrequencies 10 ellipsis =
       Inr \<lparr>Snippet.Content = ellipsis @ ''ab cd'' @ ellipsis,
            Snippet.StartPos = 0, Snippet.EndPos = 5\<rparr>"
  by (intro conjI; code_simp)

end
